theory Spec2Isabelle
  imports Main
begin

section \<open>Data model\<close>

text \<open>
  A row of the tenant table (\<open>TENANT_MODEL\<close>). The middleware reads two columns:
  \<open>schema_name\<close> and \<open>domain_url\<close>.
\<close>

record tenant =
  schema_name :: string
  domain_url :: string

text \<open>
  The exception classes that occur in \<open>middleware.py\<close> and in the collaborators it calls.
  None of them is a subclass of another one of the list, so an \<open>except C\<close> clause catches
  exactly the errors of class \<open>C\<close>. An exception object is its class and its message.
\<close>

datatype exception_class =
    Http404
  | DisallowedHost
  | DoesNotExist
  | MultipleObjectsReturned
  | Exception
  | NotImplementedError

datatype error = Raise (cls: exception_class) (message: string)

text \<open>
  The values an urlconf attribute can hold: Python's \<open>None\<close> or the name of a module.
\<close>

datatype pyvalue = PyNone | PyStr string

text \<open>
  \<open>django.conf.settings\<close>, as far as the middleware reads it. \<open>PUBLIC_SCHEMA_URLCONF\<close> is
  \<open>None\<close> when the attribute is absent (\<open>hasattr\<close> is false) and \<open>Some v\<close> when it is
  defined with the value \<open>v\<close>, which may be Python's \<open>None\<close>.
\<close>

record settings =
  PUBLIC_SCHEMA_NAME :: string
  PUBLIC_SCHEMA_URLCONF :: "pyvalue option"

text \<open>
  Everything a request run of the middleware can read or change:
  the request (its Host header, Django's verdict on that header, \<open>request.tenant\<close>,
  \<open>request.urlconf\<close>; an attribute that has not been assigned is \<open>None\<close>), the
  connection's active schema, the rows of the tenant table, the number of times the
  content-type cache has been cleared, and, for each query of the tenant table so far, the
  schema the connection was at when it ran.
  The host is a WSGI string: one \<open>char\<close> per code point below 256.
  \<open>request_host_error\<close> is \<open>None\<close> when Django accepts the header, and the message of the
  \<open>DisallowedHost\<close> it raises when the header is malformed or outside \<open>ALLOWED_HOSTS\<close>.
\<close>

record world =
  request_host :: string
  request_host_error :: "string option"
  request_tenant :: "tenant option"
  request_urlconf :: "pyvalue option"
  connection_schema_name :: string
  tenants :: "tenant list"
  clear_cache_calls :: nat
  lookup_schemas :: "string list"

type_synonym 'a effect = "world \<Rightarrow> (error + 'a) \<times> world"

section \<open>Collaborators\<close>

definition get_public_schema_name :: "settings \<Rightarrow> string" where
  \<comment> \<open>Modelled from the spec: \<open>tenant_schemas.utils.get_public_schema_name\<close> is not in
      \<open>middleware.py\<close>; the spec lists the public schema name as a required, constant
      configuration input.\<close>
  "get_public_schema_name st = PUBLIC_SCHEMA_NAME st"

definition set_schema_to_public :: "settings \<Rightarrow> world \<Rightarrow> world" where
  \<comment> \<open>Modelled from the spec: \<open>connection.set_schema_to_public\<close> belongs to the database
      backend; the spec's \<open>SetActiveSchema(public)\<close> makes the public schema the active
      one and does nothing else.\<close>
  "set_schema_to_public st w = w\<lparr>connection_schema_name := get_public_schema_name st\<rparr>"

definition set_tenant :: "tenant \<Rightarrow> world \<Rightarrow> world" where
  \<comment> \<open>Modelled from the spec: \<open>connection.set_tenant\<close> belongs to the database backend; the
      spec's \<open>SetActiveSchema(name)\<close> makes the tenant's schema the active one and does
      nothing else.\<close>
  "set_tenant t w = w\<lparr>connection_schema_name := schema_name t\<rparr>"

definition clear_cache :: "world \<Rightarrow> world" where
  \<comment> \<open>Modelled from the spec: \<open>ContentType.objects.clear_cache\<close> is Django's; the spec's
      \<open>ClearCrossSchemaCache()\<close> is one invalidation, counted here.\<close>
  "clear_cache w = w\<lparr>clear_cache_calls := Suc (clear_cache_calls w)\<rparr>"

definition objects_get :: "(tenant \<Rightarrow> bool) \<Rightarrow> tenant effect" where
  \<comment> \<open>Modelled from the spec: \<open>TenantModel.objects.get\<close> is Django's manager on the absent
      tenant model; the spec's \<open>TenantDirectory.FindByDomain\<close> and \<open>FindBySchema\<close> look a
      row up by equality on one column. As \<open>get\<close> does, no row is \<open>DoesNotExist\<close> and more
      than one is \<open>MultipleObjectsReturned\<close> (their messages are left empty). The query
      runs at the connection's schema, which the log records.\<close>
  "objects_get p w =
     (case filter p (tenants w) of
        [] \<Rightarrow> Inl (Raise DoesNotExist [])
      | [t] \<Rightarrow> Inr t
      | _ \<Rightarrow> Inl (Raise MultipleObjectsReturned []),
      w\<lparr>lookup_schemas := lookup_schemas w @ [connection_schema_name w]\<rparr>)"

definition get_host :: "world \<Rightarrow> error + string" where
  \<comment> \<open>\<open>request.get_host()\<close> is Django's: it returns the Host header as sent, port and
      letter case included, or raises \<open>DisallowedHost\<close> for a header it rejects. Which
      headers it rejects, and with what message, is given with the request.\<close>
  "get_host request =
     (case request_host_error request of
        Some msg \<Rightarrow> Inl (Raise DisallowedHost msg)
      | None \<Rightarrow> Inr (request_host request))"

definition remove_www :: "string \<Rightarrow> string" where
  \<comment> \<open>Modelled from the spec: \<open>tenant_schemas.utils.remove_www\<close> is not in \<open>middleware.py\<close>;
      the spec has it strip a leading "www." prefix.\<close>
  "remove_www hostname = (if take 4 hostname = ''www.'' then drop 4 hostname else hostname)"

section \<open>Strings\<close>

definition lower_char :: "char \<Rightarrow> char" where
  \<comment> \<open>\<open>str.lower\<close> on one code point below 256: the letters A to Z and the capital letters
      of Latin-1 (0xC0 to 0xDE without the multiplication sign 0xD7) move up by 32.\<close>
  "lower_char c =
     (let n = (of_char c :: nat)
      in if (65 \<le> n \<and> n \<le> 90) \<or> (192 \<le> n \<and> n \<le> 214) \<or> (216 \<le> n \<and> n \<le> 222)
         then char_of (n + 32) else c)"

definition lower :: "string \<Rightarrow> string" where
  "lower s = map lower_char s"

definition split_colon_first :: "string \<Rightarrow> string" where
  \<comment> \<open>\<open>s.split(':')[0]\<close>: the part before the first colon, all of \<open>s\<close> when it has none.\<close>
  "split_colon_first s = takeWhile (\<lambda>c. c \<noteq> CHR '':'') s"

section \<open>The middleware classes\<close>

text \<open>
  The classes of \<open>middleware.py\<close>. \<open>DefaultTenantMiddleware\<close> carries its class attribute
  \<open>DEFAULT_SCHEMA_NAME\<close> (\<open>None\<close> or a string, which a subclass overrides);
  \<open>CustomMiddleware\<close> is a subclass of \<open>BaseTenantMiddleware\<close> with a \<open>get_tenant\<close> of its
  own, which may return \<open>None\<close>, raise, and change the world.
\<close>

datatype middleware =
    BaseTenantMiddleware
  | TenantMiddleware
  | SuspiciousTenantMiddleware
  | DefaultTenantMiddleware "string option"
  | CustomMiddleware "(tenant option) effect"

fun TENANT_NOT_FOUND_EXCEPTION :: "middleware \<Rightarrow> exception_class" where
  \<comment> \<open>The class attribute; \<open>BaseTenantMiddleware\<close> has none, and nothing reads it there.\<close>
  "TENANT_NOT_FOUND_EXCEPTION TenantMiddleware = Http404"
| "TENANT_NOT_FOUND_EXCEPTION SuspiciousTenantMiddleware = DisallowedHost"
| "TENANT_NOT_FOUND_EXCEPTION (DefaultTenantMiddleware d) = DisallowedHost"

definition hostname_from_request :: "world \<Rightarrow> error + string" where
  \<comment> \<open>An error of \<open>request.get_host()\<close> leaves the function before anything else runs.\<close>
  "hostname_from_request request =
     (case get_host request of
        Inl e \<Rightarrow> Inl e
      | Inr host \<Rightarrow> Inr (lower (remove_www (split_colon_first host))))"

definition no_tenant_message :: "string \<Rightarrow> string" where
  \<comment> \<open>\<open>'No tenant for hostname "%s"' % hostname\<close>\<close>
  "no_tenant_message hostname = ''No tenant for hostname '' @ [CHR 0x22] @ hostname @ [CHR 0x22]"

definition TenantMiddleware_get_tenant :: "exception_class \<Rightarrow> (tenant option) effect" where
  \<comment> \<open>The first argument is \<open>self.TENANT_NOT_FOUND_EXCEPTION\<close>. The call of
      \<open>hostname_from_request\<close> is outside the \<open>try\<close>: its error is raised as it is, before
      any query.\<close>
  "TenantMiddleware_get_tenant exc w =
     (case hostname_from_request w of
        Inl e \<Rightarrow> (Inl e, w)
      | Inr hostname \<Rightarrow>
          (case objects_get (\<lambda>t. domain_url t = hostname) w of
             (Inr t, w') \<Rightarrow> (Inr (Some t), w')
           | (Inl e, w') \<Rightarrow>
               if cls e = DoesNotExist then (Inl (Raise exc (no_tenant_message hostname)), w')
               else (Inl e, w')))"

definition falsy :: "string option \<Rightarrow> bool" where
  \<comment> \<open>\<open>not schema_name\<close>: true of \<open>None\<close> and of the empty string.\<close>
  "falsy v = (case v of None \<Rightarrow> True | Some s \<Rightarrow> s = [])"

definition fallback_schema_name :: "string option \<Rightarrow> settings \<Rightarrow> string" where
  \<comment> \<open>Lines 117 to 119: \<open>schema_name = self.DEFAULT_SCHEMA_NAME\<close>, replaced by the public
      schema name when it is falsy.\<close>
  "fallback_schema_name default_schema_name st =
     (if falsy default_schema_name then get_public_schema_name st
      else (case default_schema_name of Some s \<Rightarrow> s | None \<Rightarrow> []))"

definition DefaultTenantMiddleware_get_tenant ::
  "exception_class \<Rightarrow> string option \<Rightarrow> settings \<Rightarrow> (tenant option) effect" where
  \<comment> \<open>The first two arguments are \<open>self.TENANT_NOT_FOUND_EXCEPTION\<close> and
      \<open>self.DEFAULT_SCHEMA_NAME\<close>; \<open>super().get_tenant\<close> is \<open>TenantMiddleware\<close>'s. The
      \<open>except\<close> clause catches by class, so it also catches the \<open>DisallowedHost\<close> of
      \<open>request.get_host()\<close>.\<close>
  "DefaultTenantMiddleware_get_tenant exc default_schema_name st w =
     (case TenantMiddleware_get_tenant exc w of
        (Inr t, w') \<Rightarrow> (Inr t, w')
      | (Inl e, w') \<Rightarrow>
          if cls e = exc then
            (let name = fallback_schema_name default_schema_name st
             in case objects_get (\<lambda>t. schema_name t = name) w' of
                  (Inr t, w'') \<Rightarrow> (Inr (Some t), w'')
                | (Inl e', w'') \<Rightarrow>
                    if cls e' = DoesNotExist then (Inl e, w'') else (Inl e', w''))
          else (Inl e, w'))"

fun get_tenant :: "middleware \<Rightarrow> settings \<Rightarrow> (tenant option) effect" where
  \<comment> \<open>Method dispatch on the class of \<open>self\<close>.\<close>
  "get_tenant BaseTenantMiddleware st w = (Inl (Raise NotImplementedError []), w)"
| "get_tenant TenantMiddleware st w =
     TenantMiddleware_get_tenant (TENANT_NOT_FOUND_EXCEPTION TenantMiddleware) w"
| "get_tenant SuspiciousTenantMiddleware st w =
     TenantMiddleware_get_tenant (TENANT_NOT_FOUND_EXCEPTION SuspiciousTenantMiddleware) w"
| "get_tenant (DefaultTenantMiddleware d) st w =
     DefaultTenantMiddleware_get_tenant
       (TENANT_NOT_FOUND_EXCEPTION (DefaultTenantMiddleware d)) d st w"
| "get_tenant (CustomMiddleware g) st w = g w"

definition process_request :: "middleware \<Rightarrow> settings \<Rightarrow> unit effect" where
  \<comment> \<open>\<open>connection.set_tenant(request.tenant)\<close> and the test on
      \<open>request.tenant.schema_name\<close> read the attribute assigned the line before.
      \<open>hasattr(settings, 'PUBLIC_SCHEMA_URLCONF')\<close> is \<open>PUBLIC_SCHEMA_URLCONF st \<noteq> None\<close>:
      it holds of a setting defined as Python's \<open>None\<close> too, which is then assigned.\<close>
  "process_request self st w0 =
     (let w1 = set_schema_to_public st w0
      in case get_tenant self st w1 of
           (Inl e, w2) \<Rightarrow> (Inl e, w2)
         | (Inr None, w2) \<Rightarrow>
             (Inl (Raise Exception ''Trying to set current tenant to None!''), w2)
         | (Inr (Some t), w2) \<Rightarrow>
             (let w3 = w2\<lparr>request_tenant := Some t\<rparr>;
                  w4 = set_tenant t w3;
                  w5 = clear_cache w4;
                  w6 = (if PUBLIC_SCHEMA_URLCONF st \<noteq> None
                           \<and> schema_name t = get_public_schema_name st
                        then w5\<lparr>request_urlconf := PUBLIC_SCHEMA_URLCONF st\<rparr>
                        else w5)
              in (Inr (), w6)))"

fun shipped :: "middleware \<Rightarrow> bool" where
  \<comment> \<open>The classes that \<open>middleware.py\<close> itself defines, as opposed to a subclass with a
      \<open>get_tenant\<close> of its own.\<close>
  "shipped (CustomMiddleware g) = False"
| "shipped _ = True"

section \<open>A sample installation\<close>

definition sample_settings :: settings where
  "sample_settings =
     \<lparr>PUBLIC_SCHEMA_NAME = ''public'', PUBLIC_SCHEMA_URLCONF = Some (PyStr ''urls_public'')\<rparr>"

definition public_tenant :: tenant where
  "public_tenant = \<lparr>schema_name = ''public'', domain_url = ''example.com''\<rparr>"

definition tenant1 :: tenant where
  "tenant1 = \<lparr>schema_name = ''tenant1'', domain_url = ''tenant1.example.com''\<rparr>"

definition sample_world :: "string \<Rightarrow> world" where
  \<comment> \<open>A request for the given host, which Django accepts, on a connection that the
      previous request left at another tenant's schema.\<close>
  "sample_world h =
     \<lparr>request_host = h, request_host_error = None, request_tenant = None,
      request_urlconf = None,
      connection_schema_name = ''tenant9'', tenants = [public_tenant, tenant1],
      clear_cache_calls = 0, lookup_schemas = []\<rparr>"

definition rejected_world :: "string \<Rightarrow> world" where
  \<comment> \<open>The same for a host that Django rejects.\<close>
  "rejected_world h = (sample_world h)\<lparr>request_host_error := Some ''Invalid HTTP_HOST header''\<rparr>"

definition schema_probe :: "(tenant option) effect" where
  \<comment> \<open>A custom resolver that reports the schema it finds the connection at: it raises an
      error with that schema's name as its message.\<close>
  "schema_probe w = (Inl (Raise Exception (connection_schema_name w)), w)"

definition absent_resolver :: "(tenant option) effect" where
  \<comment> \<open>A faulty custom resolver: it moves the connection and returns \<open>None\<close>.\<close>
  "absent_resolver w = (Inr None, w\<lparr>connection_schema_name := ''elsewhere''\<rparr>)"

section \<open>Strings, lookups and resolvers: auxiliary facts\<close>

lemma of_char_lower_char:
  "of_char (lower_char c) =
     (let n = (of_char c :: nat)
      in if (65 \<le> n \<and> n \<le> 90) \<or> (192 \<le> n \<and> n \<le> 214) \<or> (216 \<le> n \<and> n \<le> 222)
         then n + 32 else n)"
  by (auto simp add: lower_char_def Let_def)

lemma colon_code: "(c = CHR '':'') \<longleftrightarrow> (of_char c :: nat) = 58"
proof -
  have "(of_char (CHR '':'') :: nat) = 58" by simp
  then show ?thesis by (metis of_char_eq_iff)
qed

lemma lower_char_colon: "lower_char c = CHR '':'' \<longleftrightarrow> c = CHR '':''"
  unfolding colon_code of_char_lower_char by (auto simp add: Let_def)

lemma colon_lower: "CHR '':'' \<in> set (lower s) \<longleftrightarrow> CHR '':'' \<in> set s"
proof -
  have "set (lower s) = lower_char ` set s"
    by (simp add: lower_def)
  then show ?thesis
    by (metis image_iff lower_char_colon)
qed

lemma lower_www_literal: "lower ''www.'' = ''www.''"
  by code_simp

lemma lower_take: "take n (lower s) = lower (take n s)"
  by (simp add: lower_def take_map)

lemma remove_www_no_prefix: "take 4 (lower s) \<noteq> ''www.'' \<Longrightarrow> remove_www s = s"
  unfolding remove_www_def lower_take using lower_www_literal by auto

lemma split_colon_first_append:
  "CHR '':'' \<notin> set h \<Longrightarrow> p = [] \<or> hd p = CHR '':'' \<Longrightarrow> split_colon_first (h @ p) = h"
  unfolding split_colon_first_def
proof (induction h)
  case Nil
  then show ?case by (cases p) auto
next
  case (Cons a h)
  then show ?case by auto
qed

lemma hostname_from_request_accepted:
  "request_host_error w = None \<Longrightarrow>
   hostname_from_request w = Inr (lower (remove_www (split_colon_first (request_host w))))"
  by (simp add: hostname_from_request_def get_host_def)

lemma hostname_from_request_rejected:
  "request_host_error w = Some msg \<Longrightarrow>
   hostname_from_request w = Inl (Raise DisallowedHost msg)"
  by (simp add: hostname_from_request_def get_host_def)

lemma hostname_normal:
  assumes "lower h = d" and "CHR '':'' \<notin> set d" and "take 4 d \<noteq> ''www.''"
    and "request_host w = h @ p" and "p = [] \<or> hd p = CHR '':''"
    and "request_host_error w = None"
  shows "hostname_from_request w = Inr d"
proof -
  have "CHR '':'' \<notin> set h" using assms(1,2) colon_lower by blast
  then have "split_colon_first (request_host w) = h"
    using assms(4,5) split_colon_first_append by simp
  moreover have "remove_www h = h"
    using assms(1,3) remove_www_no_prefix by blast
  ultimately show ?thesis
    using assms(1,6) by (simp add: hostname_from_request_accepted)
qed

lemma hostname_from_request_www:
  assumes "request_host w = ''www.'' @ h @ p" and "CHR '':'' \<notin> set h"
    and "p = [] \<or> hd p = CHR '':''" and "request_host_error w = None"
  shows "hostname_from_request w = Inr (lower h)"
proof -
  have "CHR '':'' \<notin> set (''www.'' @ h)"
    using assms(2) by simp
  then have "split_colon_first ((''www.'' @ h) @ p) = ''www.'' @ h"
    using assms(3) by (rule split_colon_first_append)
  then show ?thesis
    using assms(1,4) by (simp add: hostname_from_request_accepted remove_www_def)
qed

lemma filter_unique:
  "distinct (map f xs) \<Longrightarrow> x \<in> set xs \<Longrightarrow> filter (\<lambda>y. f y = f x) xs = [x]"
proof (induction xs)
  case Nil
  then show ?case by simp
next
  case (Cons a xs)
  show ?case
  proof (cases "a = x")
    case True
    have "f x \<notin> f ` set xs" using Cons.prems(1) True by simp
    then have "\<forall>y\<in>set xs. f y \<noteq> f x" by (metis imageI)
    then have "filter (\<lambda>y. f y = f x) xs = []" by (simp add: filter_empty_conv)
    then show ?thesis using True by simp
  next
    case False
    then have "x \<in> set xs" using Cons.prems(2) by simp
    moreover have "f a \<notin> f ` set xs" using Cons.prems(1) by simp
    then have "f a \<noteq> f x" using calculation by (metis imageI)
    ultimately show ?thesis using Cons by simp
  qed
qed

lemma objects_get_snd:
  "snd (objects_get p w) = w\<lparr>lookup_schemas := lookup_schemas w @ [connection_schema_name w]\<rparr>"
  by (simp add: objects_get_def)

lemma objects_get_none:
  "\<forall>t\<in>set (tenants w). \<not> p t \<Longrightarrow> fst (objects_get p w) = Inl (Raise DoesNotExist [])"
  by (simp add: objects_get_def filter_empty_conv[THEN iffD2])

lemma objects_get_one: "filter p (tenants w) = [t] \<Longrightarrow> fst (objects_get p w) = Inr t"
  by (simp add: objects_get_def)

lemma objects_get_fst_tenants:
  "tenants w' = tenants w \<Longrightarrow> fst (objects_get p w') = fst (objects_get p w)"
  by (simp add: objects_get_def)

lemma TenantMiddleware_get_tenant_rejected:
  "request_host_error w = Some msg \<Longrightarrow>
   TenantMiddleware_get_tenant exc w = (Inl (Raise DisallowedHost msg), w)"
  by (simp add: TenantMiddleware_get_tenant_def hostname_from_request_rejected)

lemma TenantMiddleware_get_tenant_snd:
  "hostname_from_request w = Inr h \<Longrightarrow>
   snd (TenantMiddleware_get_tenant exc w) =
     w\<lparr>lookup_schemas := lookup_schemas w @ [connection_schema_name w]\<rparr>"
  using objects_get_snd [of "\<lambda>t. domain_url t = h" w]
  by (auto simp add: TenantMiddleware_get_tenant_def split: prod.splits sum.splits)

lemma TenantMiddleware_get_tenant_not_found:
  assumes "hostname_from_request w = Inr h"
    and "\<forall>t\<in>set (tenants w). domain_url t \<noteq> h"
  shows "fst (TenantMiddleware_get_tenant exc w) = Inl (Raise exc (no_tenant_message h))"
  using objects_get_none [of w "\<lambda>t. domain_url t = h"] assms
  by (auto simp add: TenantMiddleware_get_tenant_def split: prod.splits sum.splits)

lemma TenantMiddleware_get_tenant_found:
  assumes "hostname_from_request w = Inr h"
    and "filter (\<lambda>t. domain_url t = h) (tenants w) = [t]"
  shows "fst (TenantMiddleware_get_tenant exc w) = Inr (Some t)"
  using objects_get_one [OF assms(2)] assms(1)
  by (auto simp add: TenantMiddleware_get_tenant_def split: prod.splits sum.splits)

lemma TenantMiddleware_get_tenant_frame:
  "\<exists>xs. snd (TenantMiddleware_get_tenant exc w) = w\<lparr>lookup_schemas := lookup_schemas w @ xs\<rparr>
        \<and> (\<forall>x\<in>set xs. x = connection_schema_name w)
        \<and> (request_host_error w = None \<longrightarrow> xs \<noteq> [])"
proof (cases "request_host_error w")
  case None
  then have "snd (TenantMiddleware_get_tenant exc w) =
      w\<lparr>lookup_schemas := lookup_schemas w @ [connection_schema_name w]\<rparr>"
    using hostname_from_request_accepted TenantMiddleware_get_tenant_snd by blast
  then show ?thesis
    by (intro exI [of _ "[connection_schema_name w]"]) simp
next
  case (Some msg)
  then show ?thesis
    by (intro exI [of _ "[]"]) (simp add: TenantMiddleware_get_tenant_rejected)
qed

lemma TenantMiddleware_get_tenant_unknown:
  assumes "\<forall>h. hostname_from_request w = Inr h \<longrightarrow> (\<forall>t\<in>set (tenants w). domain_url t \<noteq> h)"
  shows "fst (TenantMiddleware_get_tenant exc w) =
     (case request_host_error w of
        Some msg \<Rightarrow> Inl (Raise DisallowedHost msg)
      | None \<Rightarrow> Inl (Raise exc (no_tenant_message
                   (lower (remove_www (split_colon_first (request_host w)))))))"
proof (cases "request_host_error w")
  case None
  then show ?thesis
    using assms hostname_from_request_accepted [OF None]
      TenantMiddleware_get_tenant_not_found [of w _ exc]
    by simp
next
  case (Some msg)
  then show ?thesis
    by (simp add: TenantMiddleware_get_tenant_rejected)
qed

lemma Default_snd_frame:
  "\<exists>xs. snd (DefaultTenantMiddleware_get_tenant exc d st w) =
          w\<lparr>lookup_schemas := lookup_schemas w @ xs\<rparr>
        \<and> (\<forall>x\<in>set xs. x = connection_schema_name w)
        \<and> (request_host_error w = None \<longrightarrow> xs \<noteq> [])"
proof -
  obtain xs where
    first: "snd (TenantMiddleware_get_tenant exc w) = w\<lparr>lookup_schemas := lookup_schemas w @ xs\<rparr>"
    and at: "\<forall>x\<in>set xs. x = connection_schema_name w"
    and nonempty: "request_host_error w = None \<longrightarrow> xs \<noteq> []"
    using TenantMiddleware_get_tenant_frame by blast
  let ?w1 = "w\<lparr>lookup_schemas := lookup_schemas w @ xs\<rparr>"
  let ?w2 = "w\<lparr>lookup_schemas := lookup_schemas w @ (xs @ [connection_schema_name w])\<rparr>"
  have second: "snd (objects_get p ?w1) = ?w2" for p
    by (simp add: objects_get_snd)
  have "snd (DefaultTenantMiddleware_get_tenant exc d st w) = ?w1
      \<or> snd (DefaultTenantMiddleware_get_tenant exc d st w) = ?w2"
    using first second [of "\<lambda>t. schema_name t = fallback_schema_name d st"]
    by (auto simp add: DefaultTenantMiddleware_get_tenant_def Let_def
        split: prod.splits sum.splits option.splits)
  then show ?thesis
  proof
    assume "snd (DefaultTenantMiddleware_get_tenant exc d st w) = ?w1"
    then show ?thesis using at nonempty by (intro exI [of _ xs]) simp
  next
    assume "snd (DefaultTenantMiddleware_get_tenant exc d st w) = ?w2"
    then show ?thesis using at
      by (intro exI [of _ "xs @ [connection_schema_name w]"]) simp
  qed
qed

lemma shipped_get_tenant_frame:
  assumes "shipped self"
  shows "\<exists>xs. snd (get_tenant self st w) = w\<lparr>lookup_schemas := lookup_schemas w @ xs\<rparr>
          \<and> (\<forall>x\<in>set xs. x = connection_schema_name w)
          \<and> (self \<noteq> BaseTenantMiddleware \<and> request_host_error w = None \<longrightarrow> xs \<noteq> [])"
proof (cases self)
  case BaseTenantMiddleware
  then show ?thesis by (intro exI [of _ "[]"]) simp
next
  case TenantMiddleware
  then show ?thesis
    using TenantMiddleware_get_tenant_frame [of Http404 w] by auto
next
  case SuspiciousTenantMiddleware
  then show ?thesis
    using TenantMiddleware_get_tenant_frame [of DisallowedHost w] by auto
next
  case (DefaultTenantMiddleware d)
  then show ?thesis
    using Default_snd_frame [of DisallowedHost d st w] by auto
next
  case (CustomMiddleware g)
  then show ?thesis using assms by simp
qed

lemma process_request_none:
  "get_tenant self st (set_schema_to_public st w) = (Inr None, w') \<Longrightarrow>
   process_request self st w =
     (Inl (Raise Exception ''Trying to set current tenant to None!''), w')"
  by (simp add: process_request_def)

lemma process_request_some:
  "get_tenant self st (set_schema_to_public st w) = (Inr (Some t), w') \<Longrightarrow>
   process_request self st w =
     (Inr (),
      if PUBLIC_SCHEMA_URLCONF st \<noteq> None \<and> schema_name t = get_public_schema_name st
      then w'\<lparr>request_tenant := Some t, connection_schema_name := schema_name t,
              clear_cache_calls := Suc (clear_cache_calls w'),
              request_urlconf := PUBLIC_SCHEMA_URLCONF st\<rparr>
      else w'\<lparr>request_tenant := Some t, connection_schema_name := schema_name t,
              clear_cache_calls := Suc (clear_cache_calls w')\<rparr>)"
  by (simp add: process_request_def set_tenant_def clear_cache_def Let_def)

lemma process_request_lookup_schemas:
  "lookup_schemas (snd (process_request self st w)) =
   lookup_schemas (snd (get_tenant self st (set_schema_to_public st w)))"
  by (simp add: process_request_def set_tenant_def clear_cache_def Let_def
      split: prod.splits sum.splits option.splits)

lemma Default_fallback_fst:
  assumes "fst (TenantMiddleware_get_tenant exc w) = Inl e" and "cls e = exc"
  shows "fst (DefaultTenantMiddleware_get_tenant exc d st w) =
     (case fst (objects_get (\<lambda>t. schema_name t = fallback_schema_name d st) w) of
        Inr t \<Rightarrow> Inr (Some t)
      | Inl e' \<Rightarrow> if cls e' = DoesNotExist then Inl e else Inl e')"
proof -
  obtain xs where
    "snd (TenantMiddleware_get_tenant exc w) = w\<lparr>lookup_schemas := lookup_schemas w @ xs\<rparr>"
    using TenantMiddleware_get_tenant_frame by blast
  then have first: "TenantMiddleware_get_tenant exc w =
      (Inl e, w\<lparr>lookup_schemas := lookup_schemas w @ xs\<rparr>)"
    using assms(1) by (metis prod.collapse)
  let ?w1 = "w\<lparr>lookup_schemas := lookup_schemas w @ xs\<rparr>"
  obtain r w2 where
    second: "objects_get (\<lambda>t. schema_name t = fallback_schema_name d st) ?w1 = (r, w2)"
    by (cases "objects_get (\<lambda>t. schema_name t = fallback_schema_name d st) ?w1")
  have "fst (objects_get (\<lambda>t. schema_name t = fallback_schema_name d st) w) = r"
    using objects_get_fst_tenants [of ?w1 w "\<lambda>t. schema_name t = fallback_schema_name d st"]
      second by simp
  then show ?thesis
    using first second assms(2)
    by (cases r) (simp_all add: DefaultTenantMiddleware_get_tenant_def)
qed

lemma fallback_schema_name_cases:
  "fallback_schema_name d st =
     (case d of None \<Rightarrow> get_public_schema_name st
      | Some n \<Rightarrow> if n = [] then get_public_schema_name st else n)"
  by (simp add: fallback_schema_name_def falsy_def split: option.splits)

lemma shipped_never_none:
  assumes "shipped self"
  shows "fst (get_tenant self st w) \<noteq> Inr None"
proof (cases self)
  case (CustomMiddleware g)
  then show ?thesis using assms by simp
qed (auto simp add: TenantMiddleware_get_tenant_def DefaultTenantMiddleware_get_tenant_def Let_def
      split: prod.splits sum.splits if_splits)

section \<open>The schema-switch gate\<close>

text \<open>
  Claim C1. When the resolver returns a tenant, \<open>process_request\<close> returns normally and
  leaves the connection at that tenant's \<open>schema_name\<close>, \<open>request.tenant\<close> set to that
  tenant, and the content-type cache cleared once more than the resolver left it. The
  resolvers of \<open>middleware.py\<close> never clear the cache themselves, so with them the cache
  has been cleared exactly once since the request came in.
\<close>

theorem process_request_success:
  assumes "get_tenant self st (set_schema_to_public st w) = (Inr (Some t), w')"
  shows "\<exists>w''. process_request self st w = (Inr (), w'')
           \<and> connection_schema_name w'' = schema_name t
           \<and> request_tenant w'' = Some t
           \<and> clear_cache_calls w'' = Suc (clear_cache_calls w')
           \<and> (shipped self \<longrightarrow> clear_cache_calls w'' = Suc (clear_cache_calls w))"
proof -
  have "shipped self \<longrightarrow> clear_cache_calls w' = clear_cache_calls w"
  proof
    assume "shipped self"
    then obtain xs where "snd (get_tenant self st (set_schema_to_public st w)) =
        (set_schema_to_public st w)
          \<lparr>lookup_schemas := lookup_schemas (set_schema_to_public st w) @ xs\<rparr>"
      using shipped_get_tenant_frame by blast
    then show "clear_cache_calls w' = clear_cache_calls w"
      using assms by (simp add: set_schema_to_public_def)
  qed
  then show ?thesis
    using process_request_some [OF assms] by (auto split: if_splits)
qed

theorem process_request_success_witness:
  "get_tenant TenantMiddleware sample_settings
      (set_schema_to_public sample_settings (sample_world ''Tenant1.Example.com:8000'')) =
    (Inr (Some tenant1),
     (sample_world ''Tenant1.Example.com:8000'')
       \<lparr>connection_schema_name := ''public'', lookup_schemas := [''public'']\<rparr>)
   \<and> (\<exists>w''. process_request TenantMiddleware sample_settings
               (sample_world ''Tenant1.Example.com:8000'') = (Inr (), w'')
           \<and> connection_schema_name w'' = ''tenant1''
           \<and> request_tenant w'' = Some tenant1
           \<and> clear_cache_calls w'' = 1)"
proof -
  have resolved: "get_tenant TenantMiddleware sample_settings
      (set_schema_to_public sample_settings (sample_world ''Tenant1.Example.com:8000'')) =
    (Inr (Some tenant1),
     (sample_world ''Tenant1.Example.com:8000'')
       \<lparr>connection_schema_name := ''public'', lookup_schemas := [''public'']\<rparr>)"
    by code_simp
  show ?thesis
    using resolved process_request_success [OF resolved]
    by (simp add: sample_world_def tenant1_def)
qed

text \<open>
  Claim C2. The gate calls \<open>get_tenant\<close> on the incoming world with the connection moved
  to the public schema, whatever schema the connection was at, and the outcome of the
  gate is the outcome of that call: its error, the error for a \<open>None\<close> tenant, or
  success. The queries of the tenant table that the run logs are those of that call. With
  the resolvers of \<open>middleware.py\<close> every one of them ran at the public schema, and the
  hostname resolvers make at least one when Django accepts the host.
\<close>

theorem process_request_resolves_in_public:
  "\<exists>r w2. get_tenant self st (w\<lparr>connection_schema_name := get_public_schema_name st\<rparr>) = (r, w2)
     \<and> fst (process_request self st w) =
         (case r of
            Inl e \<Rightarrow> Inl e
          | Inr None \<Rightarrow> Inl (Raise Exception ''Trying to set current tenant to None!'')
          | Inr (Some t) \<Rightarrow> Inr ())
     \<and> lookup_schemas (snd (process_request self st w)) = lookup_schemas w2
     \<and> (shipped self \<longrightarrow>
          (\<exists>xs. lookup_schemas w2 = lookup_schemas w @ xs
              \<and> (\<forall>x\<in>set xs. x = get_public_schema_name st)
              \<and> (self \<noteq> BaseTenantMiddleware \<and> request_host_error w = None \<longrightarrow> xs \<noteq> [])))"
proof -
  let ?w1 = "w\<lparr>connection_schema_name := get_public_schema_name st\<rparr>"
  obtain r w2 where call: "get_tenant self st ?w1 = (r, w2)"
    by (cases "get_tenant self st ?w1")
  have public: "set_schema_to_public st w = ?w1"
    by (simp add: set_schema_to_public_def)
  have outcome: "fst (process_request self st w) =
         (case r of
            Inl e \<Rightarrow> Inl e
          | Inr None \<Rightarrow> Inl (Raise Exception ''Trying to set current tenant to None!'')
          | Inr (Some t) \<Rightarrow> Inr ())"
    using call by (simp add: process_request_def public Let_def split: sum.splits option.splits)
  have log: "lookup_schemas (snd (process_request self st w)) = lookup_schemas w2"
    using call by (simp add: process_request_lookup_schemas public)
  have "shipped self \<longrightarrow>
          (\<exists>xs. lookup_schemas w2 = lookup_schemas w @ xs
              \<and> (\<forall>x\<in>set xs. x = get_public_schema_name st)
              \<and> (self \<noteq> BaseTenantMiddleware \<and> request_host_error w = None \<longrightarrow> xs \<noteq> []))"
  proof
    assume "shipped self"
    then obtain xs where
      frame: "snd (get_tenant self st ?w1) = ?w1\<lparr>lookup_schemas := lookup_schemas ?w1 @ xs\<rparr>"
      and at: "\<forall>x\<in>set xs. x = connection_schema_name ?w1"
      and nonempty: "self \<noteq> BaseTenantMiddleware \<and> request_host_error ?w1 = None \<longrightarrow> xs \<noteq> []"
      using shipped_get_tenant_frame by blast
    have "lookup_schemas w2 = lookup_schemas w @ xs"
      using frame call by simp
    moreover have "\<forall>x\<in>set xs. x = get_public_schema_name st"
      using at by simp
    moreover have "self \<noteq> BaseTenantMiddleware \<and> request_host_error w = None \<longrightarrow> xs \<noteq> []"
      using nonempty by simp
    ultimately show "\<exists>xs. lookup_schemas w2 = lookup_schemas w @ xs
              \<and> (\<forall>x\<in>set xs. x = get_public_schema_name st)
              \<and> (self \<noteq> BaseTenantMiddleware \<and> request_host_error w = None \<longrightarrow> xs \<noteq> [])"
      by blast
  qed
  then show ?thesis using call outcome log by blast
qed

theorem process_request_resolves_in_public_witness:
  "connection_schema_name (sample_world ''tenant1.example.com'') = ''tenant9''
   \<and> fst (process_request (CustomMiddleware schema_probe) sample_settings
          (sample_world ''tenant1.example.com'')) = Inl (Raise Exception ''public'')
   \<and> set (lookup_schemas (snd (process_request TenantMiddleware sample_settings
              (sample_world ''tenant1.example.com'')))) = {''public''}"
proof -
  let ?w = "sample_world ''tenant1.example.com''"
  have public: "get_public_schema_name sample_settings = ''public''"
    by (simp add: get_public_schema_name_def sample_settings_def)
  have before: "connection_schema_name ?w = ''tenant9''"
    by (simp add: sample_world_def)
  have start: "lookup_schemas ?w = []" and accepted: "request_host_error ?w = None"
    by (simp_all add: sample_world_def)
  from process_request_resolves_in_public [of "CustomMiddleware schema_probe" sample_settings ?w]
  have probe: "fst (process_request (CustomMiddleware schema_probe) sample_settings ?w) =
      Inl (Raise Exception ''public'')"
    by (auto simp add: schema_probe_def public)
  from process_request_resolves_in_public [of TenantMiddleware sample_settings ?w]
  obtain xs where
    "lookup_schemas (snd (process_request TenantMiddleware sample_settings ?w)) = xs"
    and "xs \<noteq> []" and "\<forall>x\<in>set xs. x = ''public''"
    using start accepted public by auto
  then have "set (lookup_schemas (snd (process_request TenantMiddleware sample_settings ?w))) =
      {''public''}"
    by (cases xs) auto
  then show ?thesis using before probe by simp
qed

text \<open>
  Claim C5. When the resolver returns \<open>None\<close>, the gate raises
  \<open>Exception("Trying to set current tenant to None!")\<close> and the world is the one the
  resolver left: the connection is where the resolver put it, and no tenant is attached,
  no cache cleared and no urlconf set after it. Only a custom resolver can return
  \<open>None\<close>; those of \<open>middleware.py\<close> never do, and they leave the connection at the
  public schema.
\<close>

theorem process_request_none_tenant:
  assumes "get_tenant self st (set_schema_to_public st w) = (Inr None, w')"
  shows "process_request self st w =
           (Inl (Raise Exception ''Trying to set current tenant to None!''), w')
       \<and> \<not> shipped self"
proof
  show "process_request self st w =
           (Inl (Raise Exception ''Trying to set current tenant to None!''), w')"
    using assms by (rule process_request_none)
  show "\<not> shipped self"
    using assms shipped_never_none [of self st "set_schema_to_public st w"] by auto
qed

theorem process_request_none_tenant_witness:
  "get_tenant (CustomMiddleware absent_resolver) sample_settings
      (set_schema_to_public sample_settings (sample_world ''tenant1.example.com'')) =
    (Inr None, (sample_world ''tenant1.example.com'')\<lparr>connection_schema_name := ''elsewhere''\<rparr>)
   \<and> process_request (CustomMiddleware absent_resolver) sample_settings
        (sample_world ''tenant1.example.com'') =
      (Inl (Raise Exception ''Trying to set current tenant to None!''),
       (sample_world ''tenant1.example.com'')\<lparr>connection_schema_name := ''elsewhere''\<rparr>)"
proof -
  have absent: "get_tenant (CustomMiddleware absent_resolver) sample_settings
      (set_schema_to_public sample_settings (sample_world ''tenant1.example.com'')) =
    (Inr None, (sample_world ''tenant1.example.com'')\<lparr>connection_schema_name := ''elsewhere''\<rparr>)"
    by (simp add: absent_resolver_def set_schema_to_public_def)
  show ?thesis
    using absent process_request_none_tenant [OF absent] by simp
qed

text \<open>
  Claim C8. After a successful run, \<open>request.urlconf\<close> holds the value of
  \<open>PUBLIC_SCHEMA_URLCONF\<close> when the setting is defined, whatever its value, and the
  tenant's \<open>schema_name\<close> is the public schema name; in every other case it is what the
  resolver left, which for the resolvers of \<open>middleware.py\<close> is what the request came in
  with.
\<close>

theorem process_request_urlconf:
  assumes "get_tenant self st (set_schema_to_public st w) = (Inr (Some t), w')"
  shows "request_urlconf (snd (process_request self st w)) =
           (if PUBLIC_SCHEMA_URLCONF st \<noteq> None \<and> schema_name t = get_public_schema_name st
            then PUBLIC_SCHEMA_URLCONF st else request_urlconf w')
       \<and> (shipped self \<longrightarrow> request_urlconf w' = request_urlconf w)"
proof
  show "request_urlconf (snd (process_request self st w)) =
           (if PUBLIC_SCHEMA_URLCONF st \<noteq> None \<and> schema_name t = get_public_schema_name st
            then PUBLIC_SCHEMA_URLCONF st else request_urlconf w')"
    using process_request_some [OF assms] by simp
  show "shipped self \<longrightarrow> request_urlconf w' = request_urlconf w"
  proof
    assume "shipped self"
    then obtain xs where "snd (get_tenant self st (set_schema_to_public st w)) =
        (set_schema_to_public st w)\<lparr>lookup_schemas := lookup_schemas (set_schema_to_public st w) @ xs\<rparr>"
      using shipped_get_tenant_frame by blast
    then show "request_urlconf w' = request_urlconf w"
      using assms by (simp add: set_schema_to_public_def)
  qed
qed

theorem process_request_urlconf_witness:
  "request_urlconf (snd (process_request (DefaultTenantMiddleware None) sample_settings
      (sample_world ''unknown.example.com''))) = Some (PyStr ''urls_public'')
   \<and> request_urlconf (snd (process_request TenantMiddleware sample_settings
      (sample_world ''tenant1.example.com''))) = None
   \<and> request_urlconf (snd (process_request (DefaultTenantMiddleware None)
      (sample_settings\<lparr>PUBLIC_SCHEMA_URLCONF := Some PyNone\<rparr>)
      ((sample_world ''unknown.example.com'')\<lparr>request_urlconf := Some (PyStr ''urls_tenant'')\<rparr>))) =
        Some PyNone"
proof -
  let ?st = "sample_settings\<lparr>PUBLIC_SCHEMA_URLCONF := Some PyNone\<rparr>"
  let ?w = "(sample_world ''unknown.example.com'')\<lparr>request_urlconf := Some (PyStr ''urls_tenant'')\<rparr>"
  have fallback: "get_tenant (DefaultTenantMiddleware None) sample_settings
      (set_schema_to_public sample_settings (sample_world ''unknown.example.com'')) =
    (Inr (Some public_tenant),
     (sample_world ''unknown.example.com'')
       \<lparr>connection_schema_name := ''public'', lookup_schemas := [''public'', ''public'']\<rparr>)"
    by code_simp
  have exact: "get_tenant TenantMiddleware sample_settings
      (set_schema_to_public sample_settings (sample_world ''tenant1.example.com'')) =
    (Inr (Some tenant1),
     (sample_world ''tenant1.example.com'')
       \<lparr>connection_schema_name := ''public'', lookup_schemas := [''public'']\<rparr>)"
    by code_simp
  have defined_none: "get_tenant (DefaultTenantMiddleware None) ?st
      (set_schema_to_public ?st ?w) =
    (Inr (Some public_tenant),
     ?w\<lparr>connection_schema_name := ''public'', lookup_schemas := [''public'', ''public'']\<rparr>)"
    by code_simp
  show ?thesis
    using process_request_urlconf [OF fallback] process_request_urlconf [OF exact]
      process_request_urlconf [OF defined_none]
    by (simp add: sample_settings_def sample_world_def public_tenant_def tenant1_def
        get_public_schema_name_def)
qed

text \<open>
  Claim C10. When the resolver raises, the gate returns that error and the world is the
  one the resolver left after it was called on the incoming world with only the
  connection moved to the public schema: the gate assigns no tenant, switches to no tenant
  schema, clears no cache and sets no urlconf. With the resolvers of \<open>middleware.py\<close> the
  world differs from the incoming one in the connection's schema and the query log only.
\<close>

theorem process_request_resolver_raises:
  assumes "get_tenant self st (w\<lparr>connection_schema_name := get_public_schema_name st\<rparr>) = (Inl e, w')"
  shows "process_request self st w = (Inl e, w')
       \<and> (shipped self \<longrightarrow>
            w' = w\<lparr>connection_schema_name := get_public_schema_name st,
                   lookup_schemas := lookup_schemas w'\<rparr>)"
proof
  show "process_request self st w = (Inl e, w')"
    using assms by (simp add: process_request_def set_schema_to_public_def)
  show "shipped self \<longrightarrow>
            w' = w\<lparr>connection_schema_name := get_public_schema_name st,
                   lookup_schemas := lookup_schemas w'\<rparr>"
  proof
    assume "shipped self"
    then obtain xs where
      "snd (get_tenant self st (w\<lparr>connection_schema_name := get_public_schema_name st\<rparr>)) =
       (w\<lparr>connection_schema_name := get_public_schema_name st\<rparr>)
         \<lparr>lookup_schemas := lookup_schemas (w\<lparr>connection_schema_name := get_public_schema_name st\<rparr>) @ xs\<rparr>"
      using shipped_get_tenant_frame by blast
    then show "w' = w\<lparr>connection_schema_name := get_public_schema_name st,
                   lookup_schemas := lookup_schemas w'\<rparr>"
      using assms by auto
  qed
qed

theorem process_request_resolver_raises_witness:
  "get_tenant TenantMiddleware sample_settings
      ((sample_world ''unknown.example.com'')
         \<lparr>connection_schema_name := get_public_schema_name sample_settings\<rparr>) =
    (Inl (Raise Http404 (no_tenant_message ''unknown.example.com'')),
     (sample_world ''unknown.example.com'')
       \<lparr>connection_schema_name := ''public'', lookup_schemas := [''public'']\<rparr>)
   \<and> process_request TenantMiddleware sample_settings (sample_world ''unknown.example.com'') =
    (Inl (Raise Http404 (no_tenant_message ''unknown.example.com'')),
     (sample_world ''unknown.example.com'')
       \<lparr>connection_schema_name := ''public'', lookup_schemas := [''public'']\<rparr>)"
proof -
  have raised: "get_tenant TenantMiddleware sample_settings
      ((sample_world ''unknown.example.com'')
         \<lparr>connection_schema_name := get_public_schema_name sample_settings\<rparr>) =
    (Inl (Raise Http404 (no_tenant_message ''unknown.example.com'')),
     (sample_world ''unknown.example.com'')
       \<lparr>connection_schema_name := ''public'', lookup_schemas := [''public'']\<rparr>)"
    by code_simp
  show ?thesis
    using raised process_request_resolver_raises [OF raised] by simp
qed

section \<open>The hostname resolvers\<close>

text \<open>
  Claim C6. For a host with a "www." prefix in any letter case, the claim expects the
  bare lowercase host, \<open>acme.com\<close> for \<open>WWW.Acme.com:8080\<close>. The code gives
  \<open>www.acme.com\<close>: \<open>remove_www\<close> runs on the host as sent, before \<open>lower\<close>, so a
  prefix in capital letters stays and is then lowercased. With the prefix in small
  letters the result is the expected one.
\<close>

theorem hostname_from_request_upper_www:
  "hostname_from_request (sample_world ''WWW.Acme.com:8080'') = Inr ''www.acme.com''
   \<and> hostname_from_request (sample_world ''www.Acme.com:8080'') = Inr ''acme.com''"
  by code_simp

text \<open>
  Claim C7, amended. Let \<open>T\<close> be the only row of the tenant table with its
  \<open>domain_url\<close>, and let that domain be in the form that \<open>hostname_from_request\<close>
  produces: lowercase, without a leading "www." and without a colon. Then
  \<open>TenantMiddleware\<close> returns exactly \<open>T\<close> for a request that Django accepts and whose
  host is that domain in any letter case, with or without a port suffix.
\<close>

theorem get_tenant_normalised_domain:
  assumes only: "filter (\<lambda>t. domain_url t = domain_url T) (tenants w) = [T]"
    and lowercase: "lower (domain_url T) = domain_url T"
    and no_colon: "CHR '':'' \<notin> set (domain_url T)"
    and no_www: "take 4 (domain_url T) \<noteq> ''www.''"
    and variant: "lower h = lower (domain_url T)"
    and host: "request_host w = h @ p"
    and port: "p = [] \<or> hd p = CHR '':''"
    and accepted: "request_host_error w = None"
  shows "fst (get_tenant TenantMiddleware st w) = Inr (Some T)"
proof -
  have "lower h = domain_url T" using variant lowercase by simp
  then have "hostname_from_request w = Inr (domain_url T)"
    using no_colon no_www host port accepted by (rule hostname_normal)
  then show ?thesis
    using only TenantMiddleware_get_tenant_found [of w "domain_url T" T Http404] by simp
qed

theorem get_tenant_normalised_domain_witness:
  "fst (get_tenant TenantMiddleware sample_settings (sample_world ''Tenant1.Example.COM:8000'')) =
     Inr (Some tenant1)"
proof -
  let ?w = "sample_world ''Tenant1.Example.COM:8000''"
  have only: "filter (\<lambda>t. domain_url t = domain_url tenant1) (tenants ?w) = [tenant1]"
    by (simp add: sample_world_def public_tenant_def tenant1_def)
  have lowercase: "lower (domain_url tenant1) = domain_url tenant1"
    by code_simp
  have no_colon: "CHR '':'' \<notin> set (domain_url tenant1)"
    by (simp add: tenant1_def)
  have no_www: "take 4 (domain_url tenant1) \<noteq> ''www.''"
    by (simp add: tenant1_def)
  have variant: "lower ''Tenant1.Example.COM'' = lower (domain_url tenant1)"
    by code_simp
  have host: "request_host ?w = ''Tenant1.Example.COM'' @ '':8000''"
    by (simp add: sample_world_def)
  have port: "'':8000'' = [] \<or> hd '':8000'' = CHR '':''"
    by simp
  have accepted: "request_host_error ?w = None"
    by (simp add: sample_world_def)
  show ?thesis
    using get_tenant_normalised_domain
      [OF only lowercase no_colon no_www variant host port accepted]
    by simp
qed

text \<open>
  As the claim is stated, for every \<open>domain_url\<close> and every request, it fails: a tenant
  stored as \<open>Acme.com\<close>, as \<open>www.acme.com\<close> or as \<open>localhost:8000\<close> is not found by a
  request for exactly that host, since the lookup compares the stored domain with the
  normalised hostname; and for a host that Django rejects, such as one with an
  underscore, \<open>request.get_host()\<close> raises before any lookup.
\<close>

theorem get_tenant_unnormalised_domain_counterexample:
  "fst (get_tenant TenantMiddleware sample_settings
     ((sample_world ''Acme.com'')
        \<lparr>tenants := [\<lparr>schema_name = ''acme'', domain_url = ''Acme.com''\<rparr>]\<rparr>)) =
     Inl (Raise Http404 (no_tenant_message ''acme.com''))
   \<and> fst (get_tenant TenantMiddleware sample_settings
     ((sample_world ''www.acme.com'')
        \<lparr>tenants := [\<lparr>schema_name = ''acme'', domain_url = ''www.acme.com''\<rparr>]\<rparr>)) =
     Inl (Raise Http404 (no_tenant_message ''acme.com''))
   \<and> fst (get_tenant TenantMiddleware sample_settings
     ((sample_world ''localhost:8000'')
        \<lparr>tenants := [\<lparr>schema_name = ''acme'', domain_url = ''localhost:8000''\<rparr>]\<rparr>)) =
     Inl (Raise Http404 (no_tenant_message ''localhost''))
   \<and> fst (get_tenant TenantMiddleware sample_settings
     ((rejected_world ''my_tenant.example.com'')
        \<lparr>tenants := [\<lparr>schema_name = ''acme'', domain_url = ''my_tenant.example.com''\<rparr>]\<rparr>)) =
     Inl (Raise DisallowedHost ''Invalid HTTP_HOST header'')"
  by code_simp

text \<open>
  Claim C4, amended. On a request whose host Django accepts and whose hostname is no
  tenant's \<open>domain_url\<close>, \<open>TenantMiddleware\<close> raises \<open>Http404\<close> (page not found) and
  \<open>SuspiciousTenantMiddleware\<close>, after the same lookup, raises \<open>DisallowedHost\<close>; the
  two classes, and so the two errors, differ.
\<close>

theorem unknown_host_failure_kinds:
  assumes "hostname_from_request w = Inr h"
    and "\<forall>t\<in>set (tenants w). domain_url t \<noteq> h"
  shows "fst (get_tenant TenantMiddleware st w) = Inl (Raise Http404 (no_tenant_message h))
       \<and> fst (get_tenant SuspiciousTenantMiddleware st w) =
           Inl (Raise DisallowedHost (no_tenant_message h))
       \<and> Http404 \<noteq> DisallowedHost
       \<and> fst (get_tenant TenantMiddleware st w) \<noteq> fst (get_tenant SuspiciousTenantMiddleware st w)"
  using TenantMiddleware_get_tenant_not_found [OF assms] by simp

theorem unknown_host_failure_kinds_witness:
  "fst (get_tenant TenantMiddleware sample_settings (sample_world ''unknown.example.com'')) =
     Inl (Raise Http404 (no_tenant_message ''unknown.example.com''))
   \<and> fst (get_tenant SuspiciousTenantMiddleware sample_settings
          (sample_world ''unknown.example.com'')) =
     Inl (Raise DisallowedHost (no_tenant_message ''unknown.example.com''))"
proof -
  let ?w = "sample_world ''unknown.example.com''"
  have hostname: "hostname_from_request ?w = Inr ''unknown.example.com''"
    by code_simp
  have rows: "tenants ?w = [public_tenant, tenant1]"
    by (simp add: sample_world_def)
  have nomatch: "\<forall>t\<in>set (tenants ?w). domain_url t \<noteq> ''unknown.example.com''"
    unfolding rows by (simp add: public_tenant_def tenant1_def)
  show ?thesis
    using unknown_host_failure_kinds [OF hostname nomatch, of sample_settings] by simp
qed

text \<open>
  As the claim is stated, for every request, it fails: for a host that Django rejects,
  which matches no tenant either, both resolvers raise the \<open>DisallowedHost\<close> of
  \<open>request.get_host()\<close>, and \<open>TenantMiddleware\<close> raises no \<open>Http404\<close>.
\<close>

theorem unknown_host_rejected_counterexample:
  "fst (get_tenant TenantMiddleware sample_settings (rejected_world ''unknown.example.com'')) =
     Inl (Raise DisallowedHost ''Invalid HTTP_HOST header'')
   \<and> fst (get_tenant SuspiciousTenantMiddleware sample_settings
          (rejected_world ''unknown.example.com'')) =
     Inl (Raise DisallowedHost ''Invalid HTTP_HOST header'')"
  by code_simp

section \<open>The default-fallback resolver\<close>

text \<open>
  Claim C3. \<open>DefaultTenantMiddleware\<close> on a request whose hostname is no tenant's
  \<open>domain_url\<close>, be it that Django rejects the host or that the lookup finds no row, with
  \<open>S\<close> the configured fallback name, or the public schema name when none is configured:
  a tenant whose \<open>schema_name\<close> is \<open>S\<close> is returned; when there is none, the error is
  the very \<open>DisallowedHost\<close> that \<open>SuspiciousTenantMiddleware\<close> raises on that request
  (that of \<open>request.get_host()\<close>, or the one for the hostname), not the \<open>DoesNotExist\<close>
  of the second lookup. Schema names are unique in the tenant table.
\<close>

theorem default_fallback_unknown_host:
  assumes nomatch:
      "\<forall>h. hostname_from_request w = Inr h \<longrightarrow> (\<forall>t\<in>set (tenants w). domain_url t \<noteq> h)"
    and unique: "distinct (map schema_name (tenants w))"
    and name: "S = (case d of None \<Rightarrow> get_public_schema_name st
                   | Some n \<Rightarrow> if n = [] then get_public_schema_name st else n)"
  shows "(\<forall>t\<in>set (tenants w). schema_name t = S \<longrightarrow>
            fst (get_tenant (DefaultTenantMiddleware d) st w) = Inr (Some t))
       \<and> ((\<forall>t\<in>set (tenants w). schema_name t \<noteq> S) \<longrightarrow>
            fst (get_tenant (DefaultTenantMiddleware d) st w) =
              fst (get_tenant SuspiciousTenantMiddleware st w)
          \<and> fst (get_tenant SuspiciousTenantMiddleware st w) =
              (case request_host_error w of
                 Some msg \<Rightarrow> Inl (Raise DisallowedHost msg)
               | None \<Rightarrow> Inl (Raise DisallowedHost (no_tenant_message
                            (lower (remove_www (split_colon_first (request_host w))))))))"
proof -
  let ?e = "case request_host_error w of
              Some msg \<Rightarrow> Raise DisallowedHost msg
            | None \<Rightarrow> Raise DisallowedHost (no_tenant_message
                         (lower (remove_www (split_colon_first (request_host w)))))"
  have suspicious: "fst (TenantMiddleware_get_tenant DisallowedHost w) = Inl ?e"
    using TenantMiddleware_get_tenant_unknown [OF nomatch, of DisallowedHost]
    by (simp split: option.splits)
  have caught: "cls ?e = DisallowedHost"
    by (simp split: option.splits)
  note fallback = Default_fallback_fst [OF suspicious caught, of d st]
  show ?thesis
  proof (intro conjI ballI impI)
    fix t
    assume "t \<in> set (tenants w)" and "schema_name t = S"
    then have "filter (\<lambda>t'. schema_name t' = S) (tenants w) = [t]"
      using filter_unique [OF unique, of t] by simp
    then have "fst (objects_get (\<lambda>t'. schema_name t' = S) w) = Inr t"
      by (rule objects_get_one)
    then show "fst (get_tenant (DefaultTenantMiddleware d) st w) = Inr (Some t)"
      using fallback by (simp add: fallback_schema_name_cases name)
  next
    assume none: "\<forall>t\<in>set (tenants w). schema_name t \<noteq> S"
    have "fst (objects_get (\<lambda>t'. schema_name t' = S) w) = Inl (Raise DoesNotExist [])"
      using none by (intro objects_get_none) simp
    then have "fst (get_tenant (DefaultTenantMiddleware d) st w) = Inl ?e"
      using fallback by (simp add: fallback_schema_name_cases name)
    then show "fst (get_tenant (DefaultTenantMiddleware d) st w) =
                fst (get_tenant SuspiciousTenantMiddleware st w)"
      using suspicious by simp
    show "fst (get_tenant SuspiciousTenantMiddleware st w) =
              (case request_host_error w of
                 Some msg \<Rightarrow> Inl (Raise DisallowedHost msg)
               | None \<Rightarrow> Inl (Raise DisallowedHost (no_tenant_message
                            (lower (remove_www (split_colon_first (request_host w)))))))"
      using suspicious by (simp split: option.splits)
  qed
qed

theorem default_fallback_unknown_host_witness:
  "fst (get_tenant (DefaultTenantMiddleware None) sample_settings
          (sample_world ''unknown.example.com'')) = Inr (Some public_tenant)
   \<and> fst (get_tenant (DefaultTenantMiddleware (Some ''missing'')) sample_settings
          (sample_world ''unknown.example.com'')) =
       Inl (Raise DisallowedHost (no_tenant_message ''unknown.example.com''))
   \<and> fst (get_tenant (DefaultTenantMiddleware None) sample_settings
          (rejected_world ''unknown.example.com'')) = Inr (Some public_tenant)
   \<and> fst (get_tenant (DefaultTenantMiddleware (Some ''missing'')) sample_settings
          (rejected_world ''unknown.example.com'')) =
       Inl (Raise DisallowedHost ''Invalid HTTP_HOST header'')"
proof -
  let ?w = "sample_world ''unknown.example.com''"
  let ?r = "rejected_world ''unknown.example.com''"
  have hostname: "hostname_from_request ?w = Inr ''unknown.example.com''"
    by code_simp
  have rows: "tenants ?w = [public_tenant, tenant1]" "tenants ?r = [public_tenant, tenant1]"
    by (simp_all add: sample_world_def rejected_world_def)
  have verdict: "request_host_error ?w = None" "request_host ?w = ''unknown.example.com''"
      "request_host_error ?r = Some ''Invalid HTTP_HOST header''"
    by (simp_all add: sample_world_def rejected_world_def)
  have normal: "lower (remove_www (split_colon_first ''unknown.example.com'')) =
      ''unknown.example.com''"
    by code_simp
  have nomatch: "\<forall>h. hostname_from_request ?w = Inr h \<longrightarrow>
      (\<forall>t\<in>set (tenants ?w). domain_url t \<noteq> h)"
    unfolding hostname rows by (simp add: public_tenant_def tenant1_def)
  have rejected: "\<forall>h. hostname_from_request ?r = Inr h \<longrightarrow>
      (\<forall>t\<in>set (tenants ?r). domain_url t \<noteq> h)"
    by (simp add: hostname_from_request_rejected [OF verdict(3)])
  have unique: "distinct (map schema_name (tenants ?w))" "distinct (map schema_name (tenants ?r))"
    unfolding rows by (simp_all add: public_tenant_def tenant1_def)
  have public: "get_public_schema_name sample_settings = ''public''"
    by (simp add: get_public_schema_name_def sample_settings_def)
  have missing: "\<forall>t\<in>set [public_tenant, tenant1]. schema_name t \<noteq> ''missing''"
    by (simp add: public_tenant_def tenant1_def)
  have a: "fst (get_tenant (DefaultTenantMiddleware None) sample_settings ?w) =
      Inr (Some public_tenant)"
    using default_fallback_unknown_host
        [where d = None and st = sample_settings, OF nomatch unique(1) refl]
    by (simp add: rows public public_tenant_def)
  have b: "fst (get_tenant (DefaultTenantMiddleware (Some ''missing'')) sample_settings ?w) =
      Inl (Raise DisallowedHost (no_tenant_message ''unknown.example.com''))"
    using default_fallback_unknown_host
        [where d = "Some ''missing''" and st = sample_settings, OF nomatch unique(1) refl]
      missing
    by (simp add: rows verdict normal)
  have c: "fst (get_tenant (DefaultTenantMiddleware None) sample_settings ?r) =
      Inr (Some public_tenant)"
    using default_fallback_unknown_host
        [where d = None and st = sample_settings, OF rejected unique(2) refl]
    by (simp add: rows public public_tenant_def)
  have "fst (get_tenant (DefaultTenantMiddleware (Some ''missing'')) sample_settings ?r) =
      Inl (Raise DisallowedHost ''Invalid HTTP_HOST header'')"
    using default_fallback_unknown_host
        [where d = "Some ''missing''" and st = sample_settings, OF rejected unique(2) refl]
      missing
    by (simp add: rows verdict)
  then show ?thesis using a b c by simp
qed

text \<open>
  Claim C9. When \<open>DEFAULT_SCHEMA_NAME\<close> is falsy, \<open>None\<close> or the empty string, the
  second lookup of \<open>DefaultTenantMiddleware\<close> is by the public schema name: the name is
  the public one, the resolver behaves as with \<open>None\<close>, and for a hostname that is no
  tenant's domain its result is that of the lookup \<open>schema_name = public\<close>, with the
  error of \<open>SuspiciousTenantMiddleware\<close> when that lookup finds no row.
\<close>

theorem fallback_schema_name_falsy:
  assumes "d = None \<or> d = Some []"
  shows "fallback_schema_name d st = get_public_schema_name st
       \<and> get_tenant (DefaultTenantMiddleware d) st w = get_tenant (DefaultTenantMiddleware None) st w
       \<and> ((\<forall>h. hostname_from_request w = Inr h \<longrightarrow>
               (\<forall>t\<in>set (tenants w). domain_url t \<noteq> h)) \<longrightarrow>
            fst (get_tenant (DefaultTenantMiddleware d) st w) =
              (case fst (objects_get (\<lambda>t. schema_name t = get_public_schema_name st) w) of
                 Inr t \<Rightarrow> Inr (Some t)
               | Inl e' \<Rightarrow> if cls e' = DoesNotExist
                  then fst (get_tenant SuspiciousTenantMiddleware st w)
                  else Inl e'))"
proof -
  have name: "fallback_schema_name d st = get_public_schema_name st"
    using assms by (auto simp add: fallback_schema_name_cases)
  have same: "get_tenant (DefaultTenantMiddleware d) st w = get_tenant (DefaultTenantMiddleware None) st w"
    using assms
    by (auto simp add: DefaultTenantMiddleware_get_tenant_def fallback_schema_name_def
        falsy_def Let_def split: prod.splits sum.splits)
  have "(\<forall>h. hostname_from_request w = Inr h \<longrightarrow>
               (\<forall>t\<in>set (tenants w). domain_url t \<noteq> h)) \<longrightarrow>
            fst (get_tenant (DefaultTenantMiddleware d) st w) =
              (case fst (objects_get (\<lambda>t. schema_name t = get_public_schema_name st) w) of
                 Inr t \<Rightarrow> Inr (Some t)
               | Inl e' \<Rightarrow> if cls e' = DoesNotExist
                  then fst (get_tenant SuspiciousTenantMiddleware st w)
                  else Inl e')"
  proof
    assume nomatch: "\<forall>h. hostname_from_request w = Inr h \<longrightarrow>
               (\<forall>t\<in>set (tenants w). domain_url t \<noteq> h)"
    obtain e where suspicious: "fst (TenantMiddleware_get_tenant DisallowedHost w) = Inl e"
      and caught: "cls e = DisallowedHost"
      using TenantMiddleware_get_tenant_unknown [OF nomatch, of DisallowedHost]
      by (cases "request_host_error w") auto
    show "fst (get_tenant (DefaultTenantMiddleware d) st w) =
              (case fst (objects_get (\<lambda>t. schema_name t = get_public_schema_name st) w) of
                 Inr t \<Rightarrow> Inr (Some t)
               | Inl e' \<Rightarrow> if cls e' = DoesNotExist
                  then fst (get_tenant SuspiciousTenantMiddleware st w)
                  else Inl e')"
      using Default_fallback_fst [OF suspicious caught, of d st] suspicious name
      by (simp split: sum.splits)
  qed
  then show ?thesis using name same by blast
qed

theorem fallback_schema_name_falsy_witness:
  "fallback_schema_name (Some []) sample_settings = ''public''
   \<and> get_tenant (DefaultTenantMiddleware (Some [])) sample_settings
         (sample_world ''unknown.example.com'') =
       get_tenant (DefaultTenantMiddleware None) sample_settings
         (sample_world ''unknown.example.com'')
   \<and> fst (get_tenant (DefaultTenantMiddleware (Some [])) sample_settings
         (sample_world ''unknown.example.com'')) = Inr (Some public_tenant)"
proof -
  let ?w = "sample_world ''unknown.example.com''"
  have empty: "Some [] = None \<or> Some [] = Some ([] :: string)"
    by simp
  have hostname: "hostname_from_request ?w = Inr ''unknown.example.com''"
    by code_simp
  have rows: "tenants ?w = [public_tenant, tenant1]"
    by (simp add: sample_world_def)
  have nomatch: "\<forall>h. hostname_from_request ?w = Inr h \<longrightarrow>
      (\<forall>t\<in>set (tenants ?w). domain_url t \<noteq> h)"
    unfolding hostname rows by (simp add: public_tenant_def tenant1_def)
  have lookup: "fst (objects_get (\<lambda>t. schema_name t = get_public_schema_name sample_settings) ?w) =
      Inr public_tenant"
    by code_simp
  have public: "get_public_schema_name sample_settings = ''public''"
    by (simp add: get_public_schema_name_def sample_settings_def)
  note inst = fallback_schema_name_falsy [OF empty, of sample_settings ?w]
  have name: "fallback_schema_name (Some []) sample_settings = ''public''"
    using inst public by simp
  have same: "get_tenant (DefaultTenantMiddleware (Some [])) sample_settings ?w =
      get_tenant (DefaultTenantMiddleware None) sample_settings ?w"
    using inst by blast
  have "fst (get_tenant (DefaultTenantMiddleware (Some [])) sample_settings ?w) =
      (case fst (objects_get (\<lambda>t. schema_name t = get_public_schema_name sample_settings) ?w) of
         Inr t \<Rightarrow> Inr (Some t)
       | Inl e' \<Rightarrow> if cls e' = DoesNotExist
            then fst (get_tenant SuspiciousTenantMiddleware sample_settings ?w)
            else Inl e')"
    using inst nomatch by blast
  then have "fst (get_tenant (DefaultTenantMiddleware (Some [])) sample_settings ?w) =
      Inr (Some public_tenant)"
    unfolding lookup by simp
  then show ?thesis using name same by blast
qed

end
